theory Spec2Isabelle
  imports Complex_Main
begin

section \<open>The h2oGPT client: enumerations, connection and text completion\<close>

text \<open>
  The module \<^verbatim>\<open>client/h2ogpt_client/core.py\<close> wraps one remote endpoint of a
  text-generation service. This theory embeds its two enumerations, the \<^verbatim>\<open>Client\<close>
  class with its two call primitives, and the two operations of \<^verbatim>\<open>TextCompletion\<close>.
\<close>

subsection \<open>Enumerations\<close>

text \<open>\<^verbatim>\<open>class PromptType(Enum)\<close>: fifteen members, each with a string value.\<close>

datatype PromptType =
    DAI_FAQ
  | HUMAN_BOT
  | HUMAN_BOT_ORIGINAL
  | INSTRUCT
  | INSTRUCT_SIMPLE
  | INSTRUCT_VICUNA
  | INSTRUCT_WITH_END
  | OPEN_ASSISTANT
  | PLAIN
  | PROMPT_ANSWER
  | QUALITY
  | SIMPLE_INSTRUCT
  | SUMMARIZE
  | WIZARD_LM
  | WIZARD_MEGA

fun PromptType_value :: "PromptType \<Rightarrow> string" where
  "PromptType_value DAI_FAQ = ''dai_faq''"
| "PromptType_value HUMAN_BOT = ''human_bot''"
| "PromptType_value HUMAN_BOT_ORIGINAL = ''human_bot_orig''"
| "PromptType_value INSTRUCT = ''instruct''"
| "PromptType_value INSTRUCT_SIMPLE = ''instruct_simple''"
| "PromptType_value INSTRUCT_VICUNA = ''instruct_vicuna''"
| "PromptType_value INSTRUCT_WITH_END = ''instruct_with_end''"
| "PromptType_value OPEN_ASSISTANT = ''open_assistant''"
| "PromptType_value PLAIN = ''plain''"
| "PromptType_value PROMPT_ANSWER = ''prompt_answer''"
| "PromptType_value QUALITY = ''quality''"
| "PromptType_value SIMPLE_INSTRUCT = ''simple_instruct''"
| "PromptType_value SUMMARIZE = ''summarize''"
| "PromptType_value WIZARD_LM = ''wizard_lm''"
| "PromptType_value WIZARD_MEGA = ''wizard_mega''"

text \<open>The members in definition order, which is the order in which Python iterates the class.\<close>

definition PromptType_members :: "PromptType list" where
  "PromptType_members =
     [DAI_FAQ, HUMAN_BOT, HUMAN_BOT_ORIGINAL, INSTRUCT, INSTRUCT_SIMPLE, INSTRUCT_VICUNA,
      INSTRUCT_WITH_END, OPEN_ASSISTANT, PLAIN, PROMPT_ANSWER, QUALITY, SIMPLE_INSTRUCT,
      SUMMARIZE, WIZARD_LM, WIZARD_MEGA]"

text \<open>
  \<^verbatim>\<open>class LangChainMode(Enum)\<close>: ten members. The member \<^verbatim>\<open>ALL\<close> is written
  \<open>ALL_DOCS\<close> here, since \<open>ALL\<close> is the ASCII form of the universal quantifier.
\<close>

datatype LangChainMode =
    ALL_DOCS
  | CHAT_LLM
  | DISABLED
  | GITHUB_H2OGPT
  | H2O_DAI_DOCS
  | LLM
  | MY_DATA
  | USER_DATA
  | WIKI
  | WIKI_FULL

fun LangChainMode_value :: "LangChainMode \<Rightarrow> string" where
  "LangChainMode_value ALL_DOCS = ''All''"
| "LangChainMode_value CHAT_LLM = ''ChatLLM''"
| "LangChainMode_value DISABLED = ''Disabled''"
| "LangChainMode_value GITHUB_H2OGPT = ''github h2oGPT''"
| "LangChainMode_value H2O_DAI_DOCS = ''DriverlessAI docs''"
| "LangChainMode_value LLM = ''LLM''"
| "LangChainMode_value MY_DATA = ''MyData''"
| "LangChainMode_value USER_DATA = ''UserData''"
| "LangChainMode_value WIKI = ''wiki''"
| "LangChainMode_value WIKI_FULL = ''wiki_full''"

definition LangChainMode_members :: "LangChainMode list" where
  "LangChainMode_members =
     [ALL_DOCS, CHAT_LLM, DISABLED, GITHUB_H2OGPT, H2O_DAI_DOCS, LLM, MY_DATA, USER_DATA,
      WIKI, WIKI_FULL]"

subsection \<open>Python values\<close>

text \<open>
  Python checks no annotation at run time, so a caller may bind any object to any
  parameter. The values that can reach this module are the built-in ones and the members
  of the two enumerations. A float is carried as the number its literal denotes: the
  module does no arithmetic, it only passes floats on.
\<close>

datatype pyval =
    PNone
  | PBool bool
  | PInt int
  | PFloat real
  | PStr string
  | PList "pyval list"
  | PPromptType PromptType
  | PLangChainMode LangChainMode

text \<open>
  Errors a call can end with: the attribute error of Python (type name of the object,
  name of the missing attribute), and whatever the remote call raises.
\<close>

datatype error =
    AttributeError string string
  | RemoteError string

fun type_name :: "pyval \<Rightarrow> string" where
  "type_name PNone = ''NoneType''"
| "type_name (PBool b) = ''bool''"
| "type_name (PInt i) = ''int''"
| "type_name (PFloat x) = ''float''"
| "type_name (PStr s) = ''str''"
| "type_name (PList xs) = ''list''"
| "type_name (PPromptType t) = ''PromptType''"
| "type_name (PLangChainMode m) = ''LangChainMode''"

text \<open>
  The attribute access \<^verbatim>\<open>v.value\<close>: an enumeration member has the attribute, a
  built-in value has not and the access raises.
\<close>

fun attr_value :: "pyval \<Rightarrow> error + pyval" where
  "attr_value (PPromptType t) = Inr (PStr (PromptType_value t))"
| "attr_value (PLangChainMode m) = Inr (PStr (LangChainMode_value m))"
| "attr_value v = Inl (AttributeError (type_name v) ''value'')"

text \<open>\<^verbatim>\<open>hasattr(v, "value")\<close>, and the two \<^verbatim>\<open>isinstance\<close> tests.\<close>

fun has_value :: "pyval \<Rightarrow> bool" where
  "has_value (PPromptType t) = True"
| "has_value (PLangChainMode m) = True"
| "has_value v = False"

fun is_PromptType :: "pyval \<Rightarrow> bool" where
  "is_PromptType (PPromptType t) = True"
| "is_PromptType v = False"

fun is_LangChainMode :: "pyval \<Rightarrow> bool" where
  "is_LangChainMode (PLangChainMode m) = True"
| "is_LangChainMode v = False"

subsection \<open>The connection\<close>

text \<open>
  \<^verbatim>\<open>Client.__init__\<close> stores a handle of the transport library, built from the server
  address, the optional token and \<^verbatim>\<open>verbose=False\<close>, and a \<^verbatim>\<open>TextCompletion\<close>
  that holds nothing but a reference back to the client.
\<close>

record gradio_Client =
  src :: string
  hf_token :: "string option"
  verbose :: bool

record Client =
  client_handle :: gradio_Client

text \<open>
  A request is the endpoint name with the positional arguments. The remote service is a
  parameter of the model: it answers a request with a text or with a failure. The state
  is the client object together with the list of requests submitted so far.
\<close>

type_synonym request = "string \<times> pyval list"

type_synonym remote = "request \<Rightarrow> error + string"

record state =
  conn :: Client
  submitted :: "request list"

text \<open>
  \<^verbatim>\<open>Client._predict\<close> submits the arguments to the named endpoint and waits for the
  result; \<^verbatim>\<open>Client._predict_async\<close> submits them and awaits the wrapped future. Both
  call \<^verbatim>\<open>submit\<close> of the handle once.
\<close>

definition Client_predict ::
  "remote \<Rightarrow> pyval list \<Rightarrow> string \<Rightarrow> state \<Rightarrow> (error + string) \<times> state" where
  "Client_predict rem args api_name s =
     (rem (api_name, args), s\<lparr>submitted := submitted s @ [(api_name, args)]\<rparr>)"

definition Client_predict_async ::
  "remote \<Rightarrow> pyval list \<Rightarrow> string \<Rightarrow> state \<Rightarrow> (error + string) \<times> state" where
  "Client_predict_async rem args api_name s =
     (rem (api_name, args), s\<lparr>submitted := submitted s @ [(api_name, args)]\<rparr>)"

subsection \<open>Text completion\<close>

text \<open>The sixteen parameters of \<^verbatim>\<open>create\<close> and \<^verbatim>\<open>create_async\<close>, as bound at a call.\<close>

record params =
  prompt :: pyval
  prompt_type :: pyval
  input_context_for_instruction :: pyval
  enable_sampler :: pyval
  temperature :: pyval
  top_p :: pyval
  top_k :: pyval
  beams :: pyval
  early_stopping :: pyval
  min_output_length :: pyval
  max_output_length :: pyval
  max_time :: pyval
  repetition_penalty :: pyval
  number_returns :: pyval
  system_pre_context :: pyval
  langchain_mode :: pyval

text \<open>
  The binding of a call that gives the prompt only: every other parameter takes the
  default of the signature. The two signatures are written out separately, as in the
  source.
\<close>

definition create_defaults :: "pyval \<Rightarrow> params" where
  "create_defaults p =
     \<lparr>prompt = p,
      prompt_type = PPromptType PLAIN,
      input_context_for_instruction = PStr '''',
      enable_sampler = PBool False,
      temperature = PFloat 1.0,
      top_p = PFloat 1.0,
      top_k = PInt 40,
      beams = PFloat 1.0,
      early_stopping = PBool False,
      min_output_length = PInt 0,
      max_output_length = PInt 128,
      max_time = PInt 180,
      repetition_penalty = PFloat 1.07,
      number_returns = PInt 1,
      system_pre_context = PStr '''',
      langchain_mode = PLangChainMode DISABLED\<rparr>"

definition create_async_defaults :: "pyval \<Rightarrow> params" where
  "create_async_defaults p =
     \<lparr>prompt = p,
      prompt_type = PPromptType PLAIN,
      input_context_for_instruction = PStr '''',
      enable_sampler = PBool False,
      temperature = PFloat 1.0,
      top_p = PFloat 1.0,
      top_k = PInt 40,
      beams = PFloat 1.0,
      early_stopping = PBool False,
      min_output_length = PInt 0,
      max_output_length = PInt 128,
      max_time = PInt 180,
      repetition_penalty = PFloat 1.07,
      number_returns = PInt 1,
      system_pre_context = PStr '''',
      langchain_mode = PLangChainMode DISABLED\<rparr>"

text \<open>
  \<^verbatim>\<open>TextCompletion.create\<close>. The nine local constants come first; then the
  arguments of \<^verbatim>\<open>_predict\<close> are evaluated from left to right, so
  \<^verbatim>\<open>prompt_type.value\<close> is read before \<^verbatim>\<open>langchain_mode.value\<close>, and a failing
  read ends the call before \<^verbatim>\<open>_predict\<close> is entered.
\<close>

definition create :: "remote \<Rightarrow> params \<Rightarrow> state \<Rightarrow> (error + string) \<times> state" where
  "create rem p s =
     (let instruction = PStr '''';
          input = PStr '''';
          stream_output = PBool False;
          prompt_dict = PStr '''';
          chat_mode = PBool False;
          langchain_top_k_docs = PInt 4;
          langchain_enable_chunk = PBool True;
          langchain_chunk_size = PInt 512;
          langchain_document_choice = PList [PStr ''All'']
      in case attr_value (prompt_type p) of
           Inl e \<Rightarrow> (Inl e, s)
         | Inr prompt_type_value \<Rightarrow>
             (case attr_value (langchain_mode p) of
                Inl e \<Rightarrow> (Inl e, s)
              | Inr langchain_mode_value \<Rightarrow>
                  Client_predict rem
                    [instruction,
                     input,
                     system_pre_context p,
                     stream_output,
                     prompt_type_value,
                     prompt_dict,
                     temperature p,
                     top_p p,
                     top_k p,
                     beams p,
                     max_output_length p,
                     min_output_length p,
                     early_stopping p,
                     max_time p,
                     repetition_penalty p,
                     number_returns p,
                     enable_sampler p,
                     chat_mode,
                     prompt p,
                     input_context_for_instruction p,
                     langchain_mode_value,
                     langchain_top_k_docs,
                     langchain_enable_chunk,
                     langchain_chunk_size,
                     langchain_document_choice]
                    ''/submit_nochat'' s))"

text \<open>
  \<^verbatim>\<open>TextCompletion.create_async\<close>, awaited to completion: the same body, ending in
  \<^verbatim>\<open>_predict_async\<close>.
\<close>

definition create_async :: "remote \<Rightarrow> params \<Rightarrow> state \<Rightarrow> (error + string) \<times> state" where
  "create_async rem p s =
     (let instruction = PStr '''';
          input = PStr '''';
          stream_output = PBool False;
          prompt_dict = PStr '''';
          chat_mode = PBool False;
          langchain_top_k_docs = PInt 4;
          langchain_enable_chunk = PBool True;
          langchain_chunk_size = PInt 512;
          langchain_document_choice = PList [PStr ''All'']
      in case attr_value (prompt_type p) of
           Inl e \<Rightarrow> (Inl e, s)
         | Inr prompt_type_value \<Rightarrow>
             (case attr_value (langchain_mode p) of
                Inl e \<Rightarrow> (Inl e, s)
              | Inr langchain_mode_value \<Rightarrow>
                  Client_predict_async rem
                    [instruction,
                     input,
                     system_pre_context p,
                     stream_output,
                     prompt_type_value,
                     prompt_dict,
                     temperature p,
                     top_p p,
                     top_k p,
                     beams p,
                     max_output_length p,
                     min_output_length p,
                     early_stopping p,
                     max_time p,
                     repetition_penalty p,
                     number_returns p,
                     enable_sampler p,
                     chat_mode,
                     prompt p,
                     input_context_for_instruction p,
                     langchain_mode_value,
                     langchain_top_k_docs,
                     langchain_enable_chunk,
                     langchain_chunk_size,
                     langchain_document_choice]
                    ''/submit_nochat'' s))"

subsection \<open>Sample objects\<close>

text \<open>
  A connection, a state in which nothing has been submitted yet, and a remote service
  that answers every request with the same text.
\<close>

definition sample_client :: Client where
  "sample_client =
     \<lparr>client_handle = \<lparr>src = ''http://localhost:7860'', hf_token = None, verbose = False\<rparr>\<rparr>"

definition fresh :: "Client \<Rightarrow> state" where
  "fresh c = \<lparr>conn = c, submitted = []\<rparr>"

definition ok_remote :: remote where
  "ok_remote req = Inr ''ok''"

section \<open>Properties\<close>

subsection \<open>Auxiliary facts\<close>

lemmas call_defs =
  create_def create_async_def Client_predict_def Client_predict_async_def Let_def

lemma attr_value_no:
  "\<not> has_value v \<Longrightarrow> attr_value v = Inl (AttributeError (type_name v) ''value'')"
  by (cases v) simp_all

lemma attr_value_yes: "has_value v \<Longrightarrow> \<exists>x. attr_value v = Inr (PStr x)"
  by (cases v) simp_all

lemma PromptType_UNIV: "set PromptType_members = UNIV"
proof -
  have "t \<in> set PromptType_members" for t
    by (cases t) (simp_all add: PromptType_members_def)
  then show ?thesis by blast
qed

lemma LangChainMode_UNIV: "set LangChainMode_members = UNIV"
proof -
  have "m \<in> set LangChainMode_members" for m
    by (cases m) (simp_all add: LangChainMode_members_def)
  then show ?thesis by blast
qed

lemma PromptType_distinct: "distinct (map PromptType_value PromptType_members)"
  by (simp add: PromptType_members_def)

lemma LangChainMode_distinct: "distinct (map LangChainMode_value LangChainMode_members)"
  by (simp add: LangChainMode_members_def)

subsection \<open>The positional argument list\<close>

text \<open>
  C1, as stated, asks for exactly 24 positional values. At the call
  \<^verbatim>\<open>create("Hello")\<close> on a fresh connection the argument list that reaches the
  endpoint does not have 24 elements: the source passes 25 values, one for each of the
  25 names the claim itself lists.
\<close>

theorem C1_counterexample:
  "length (snd (last (submitted (snd (create ok_remote (create_defaults (PStr ''Hello''))
      (fresh sample_client)))))) \<noteq> 24"
  by (simp add: call_defs create_defaults_def fresh_def)

text \<open>
  C1, amended. For every binding of the fourteen unvalidated parameters, every member
  \<open>pt\<close> of \<^verbatim>\<open>PromptType\<close> and every member \<open>lm\<close> of \<^verbatim>\<open>LangChainMode\<close>,
  \<^verbatim>\<open>create\<close> submits one request to \<^verbatim>\<open>/submit_nochat\<close> whose argument list has exactly 25
  values in the documented order: instruction, input, systemPreContext, streamOutput,
  promptTypeTag, promptDict, temperature, topP, topK, beams, maxOutputLength,
  minOutputLength, earlyStopping, maxTime, repetitionPenalty, numberReturns,
  enableSampler, chatMode, prompt, inputContextForInstruction, langchainModeTag,
  langchainTopKDocs, langchainEnableChunk, langchainChunkSize, langchainDocumentChoice.
  The call returns what the remote service answers to that request.
\<close>

theorem C1_create_forwards_25_in_order:
  "(let args =
      [PStr '''', PStr '''', system_pre_context p, PBool False, PStr (PromptType_value pt),
       PStr '''', temperature p, top_p p, top_k p, beams p, max_output_length p,
       min_output_length p, early_stopping p, max_time p, repetition_penalty p,
       number_returns p, enable_sampler p, PBool False, prompt p,
       input_context_for_instruction p, PStr (LangChainMode_value lm), PInt 4, PBool True,
       PInt 512, PList [PStr ''All'']]
    in create rem (p\<lparr>prompt_type := PPromptType pt, langchain_mode := PLangChainMode lm\<rparr>) s =
         (rem (''/submit_nochat'', args),
          s\<lparr>submitted := submitted s @ [(''/submit_nochat'', args)]\<rparr>) \<and>
       length args = 25)"
  by (simp add: call_defs)

text \<open>
  C2. Calling \<^verbatim>\<open>create\<close> with prompt "Hello", prompt type INSTRUCT and temperature 0.5,
  everything else left at its default, forwards exactly the positional argument list of
  the documented example to \<^verbatim>\<open>/submit_nochat\<close>, whatever the remote service and the
  state before the call are.
\<close>

theorem C2_create_hello_example:
  "(let args =
      [PStr '''', PStr '''', PStr '''', PBool False, PStr ''instruct'', PStr '''',
       PFloat 0.5, PFloat 1.0, PInt 40, PFloat 1.0, PInt 128, PInt 0, PBool False,
       PInt 180, PFloat 1.07, PInt 1, PBool False, PBool False, PStr ''Hello'', PStr '''',
       PStr ''Disabled'', PInt 4, PBool True, PInt 512, PList [PStr ''All'']]
    in create rem ((create_defaults (PStr ''Hello''))
         \<lparr>prompt_type := PPromptType INSTRUCT, temperature := PFloat 0.5\<rparr>) s =
       (rem (''/submit_nochat'', args),
        s\<lparr>submitted := submitted s @ [(''/submit_nochat'', args)]\<rparr>))"
  by (simp add: call_defs create_defaults_def)

subsection \<open>The blocking and the suspending operation\<close>

text \<open>
  C3. For every binding of the public parameters, \<^verbatim>\<open>create_async\<close> (awaited) and
  \<^verbatim>\<open>create\<close> end in the same result and the same state, so they build the same
  argument list; the two signatures have the same defaults; with enumeration members for
  the two enumeration parameters both submit one request, to \<^verbatim>\<open>/submit_nochat\<close>; and
  with any binding at all, whatever either of them submits goes to \<^verbatim>\<open>/submit_nochat\<close>.
\<close>

theorem C3_create_async_same_request:
  "create_async rem p s = create rem p s \<and>
   create_async_defaults x = create_defaults x \<and>
   (let s' = snd (create rem (p\<lparr>prompt_type := PPromptType pt,
                langchain_mode := PLangChainMode lm\<rparr>) s);
        s'' = snd (create_async rem (p\<lparr>prompt_type := PPromptType pt,
                langchain_mode := PLangChainMode lm\<rparr>) s)
    in s' = s\<lparr>submitted := submitted s @ [(''/submit_nochat'', snd (last (submitted s')))]\<rparr> \<and>
       s'' = s\<lparr>submitted := submitted s @ [(''/submit_nochat'', snd (last (submitted s')))]\<rparr>) \<and>
   (let s' = snd (create rem p s)
    in s' = s \<or>
       s' = s\<lparr>submitted := submitted s @ [(''/submit_nochat'', snd (last (submitted s')))]\<rparr>) \<and>
   (let s' = snd (create_async rem p s)
    in s' = s \<or>
       s' = s\<lparr>submitted := submitted s @ [(''/submit_nochat'', snd (last (submitted s')))]\<rparr>)"
  by (simp add: call_defs create_defaults_def create_async_defaults_def split: sum.splits)

subsection \<open>Fields the caller cannot set\<close>

text \<open>
  C4. In the request that \<^verbatim>\<open>create\<close> or \<^verbatim>\<open>create_async\<close> forwards, the eight hidden
  fields hold their constants, whatever the caller supplies: instruction (position 0) and
  input (1) are empty, streamOutput (3) is False, promptDict (5) is empty, chatMode (17)
  is False, langchainTopKDocs (21) is 4, langchainEnableChunk (22) is True and
  langchainChunkSize (23) is 512. The first two conjuncts are the calls with enumeration
  members, which always forward a request; the last two cover every binding: the call
  either leaves the state as it was, forwarding nothing, or forwards a request with
  these constants.
\<close>

theorem C4_hidden_fields_constant:
  "(let s' = snd (create rem (p\<lparr>prompt_type := PPromptType pt,
                langchain_mode := PLangChainMode lm\<rparr>) s);
        args = snd (last (submitted s'))
    in submitted s' = submitted s @ [(''/submit_nochat'', args)] \<and>
       args ! 0 = PStr '''' \<and> args ! 1 = PStr '''' \<and> args ! 3 = PBool False \<and>
       args ! 5 = PStr '''' \<and> args ! 17 = PBool False \<and> args ! 21 = PInt 4 \<and>
       args ! 22 = PBool True \<and> args ! 23 = PInt 512) \<and>
   (let s' = snd (create_async rem (p\<lparr>prompt_type := PPromptType pt,
                langchain_mode := PLangChainMode lm\<rparr>) s);
        args = snd (last (submitted s'))
    in submitted s' = submitted s @ [(''/submit_nochat'', args)] \<and>
       args ! 0 = PStr '''' \<and> args ! 1 = PStr '''' \<and> args ! 3 = PBool False \<and>
       args ! 5 = PStr '''' \<and> args ! 17 = PBool False \<and> args ! 21 = PInt 4 \<and>
       args ! 22 = PBool True \<and> args ! 23 = PInt 512) \<and>
   (let s' = snd (create rem q s); args = snd (last (submitted s'))
    in s' = s \<or>
       submitted s' = submitted s @ [(''/submit_nochat'', args)] \<and>
       args ! 0 = PStr '''' \<and> args ! 1 = PStr '''' \<and> args ! 3 = PBool False \<and>
       args ! 5 = PStr '''' \<and> args ! 17 = PBool False \<and> args ! 21 = PInt 4 \<and>
       args ! 22 = PBool True \<and> args ! 23 = PInt 512) \<and>
   (let s' = snd (create_async rem q s); args = snd (last (submitted s'))
    in s' = s \<or>
       submitted s' = submitted s @ [(''/submit_nochat'', args)] \<and>
       args ! 0 = PStr '''' \<and> args ! 1 = PStr '''' \<and> args ! 3 = PBool False \<and>
       args ! 5 = PStr '''' \<and> args ! 17 = PBool False \<and> args ! 21 = PInt 4 \<and>
       args ! 22 = PBool True \<and> args ! 23 = PInt 512)"
  by (simp add: call_defs split: sum.splits)

text \<open>
  C5. The last positional argument that \<^verbatim>\<open>create\<close> or \<^verbatim>\<open>create_async\<close> forwards
  is the one-element list \<^verbatim>\<open>["All"]\<close>, at position 24 of 25, and no parameter changes
  it: with enumeration members a request is always forwarded and ends in that list, and
  with any binding at all the call forwards either nothing or a request that ends in it.
\<close>

theorem C5_document_choice_all:
  "(let s' = snd (create rem (p\<lparr>prompt_type := PPromptType pt,
                langchain_mode := PLangChainMode lm\<rparr>) s);
        args = snd (last (submitted s'))
    in submitted s' = submitted s @ [(''/submit_nochat'', args)] \<and>
       length args = 25 \<and> args ! 24 = PList [PStr ''All''] \<and>
       last args = PList [PStr ''All'']) \<and>
   (let s' = snd (create_async rem (p\<lparr>prompt_type := PPromptType pt,
                langchain_mode := PLangChainMode lm\<rparr>) s);
        args = snd (last (submitted s'))
    in submitted s' = submitted s @ [(''/submit_nochat'', args)] \<and>
       length args = 25 \<and> args ! 24 = PList [PStr ''All''] \<and>
       last args = PList [PStr ''All'']) \<and>
   (let s' = snd (create rem q s); args = snd (last (submitted s'))
    in s' = s \<or>
       submitted s' = submitted s @ [(''/submit_nochat'', args)] \<and>
       last args = PList [PStr ''All'']) \<and>
   (let s' = snd (create_async rem q s); args = snd (last (submitted s'))
    in s' = s \<or>
       submitted s' = submitted s @ [(''/submit_nochat'', args)] \<and>
       last args = PList [PStr ''All''])"
  by (simp add: call_defs split: sum.splits)

subsection \<open>Values outside the enumerations\<close>

text \<open>
  C6, as stated, says that every \<^verbatim>\<open>prompt_type\<close> outside \<^verbatim>\<open>PromptType\<close> makes the
  call fail before any network activity. The member \<^verbatim>\<open>LangChainMode.WIKI\<close> is not a
  prompt type, yet \<^verbatim>\<open>create("Hello", prompt_type=LangChainMode.WIKI)\<close> does not fail:
  the source only reads \<^verbatim>\<open>prompt_type.value\<close>, so the request is submitted with the
  tag "wiki" in the prompt-type position and the answer of the service is returned.
\<close>

theorem C6_counterexample:
  "\<not> is_PromptType (PLangChainMode WIKI) \<and>
   create ok_remote ((create_defaults (PStr ''Hello''))\<lparr>prompt_type := PLangChainMode WIKI\<rparr>)
     (fresh sample_client) =
   (Inr ''ok'',
    \<lparr>conn = sample_client,
     submitted =
       [(''/submit_nochat'',
         [PStr '''', PStr '''', PStr '''', PBool False, PStr ''wiki'', PStr '''',
          PFloat 1.0, PFloat 1.0, PInt 40, PFloat 1.0, PInt 128, PInt 0, PBool False,
          PInt 180, PFloat 1.07, PInt 1, PBool False, PBool False, PStr ''Hello'',
          PStr '''', PStr ''Disabled'', PInt 4, PBool True, PInt 512,
          PList [PStr ''All'']])]\<rparr>)"
  by (simp add: call_defs create_defaults_def fresh_def ok_remote_def)

text \<open>
  C6, amended. A \<^verbatim>\<open>prompt_type\<close> without a \<^verbatim>\<open>value\<close> attribute (None, a bool, an
  int, a float, a str such as a bare tag, a list) makes \<^verbatim>\<open>create\<close> and
  \<^verbatim>\<open>create_async\<close> fail with an attribute error and the state is left as it was, so
  nothing has been submitted; the same holds for such a \<^verbatim>\<open>langchain_mode\<close> when
  \<^verbatim>\<open>prompt_type\<close> has the attribute. When \<^verbatim>\<open>prompt_type\<close> is a member of
  \<^verbatim>\<open>PromptType\<close> and \<^verbatim>\<open>langchain_mode\<close> a member of \<^verbatim>\<open>LangChainMode\<close>, no such
  failure occurs: one request is submitted and the call returns the answer of the remote
  service to it. No membership check is made: whenever both arguments carry the
  attribute, of whichever enumeration they are members, the values \<open>a\<close> and \<open>b\<close> read
  from them are forwarded at positions 4 and 20 of the one request that is submitted; in
  particular a \<^verbatim>\<open>LangChainMode\<close> member as \<^verbatim>\<open>prompt_type\<close> together with a
  \<^verbatim>\<open>PromptType\<close> member as \<^verbatim>\<open>langchain_mode\<close> is not rejected.
\<close>

theorem C6_enumeration_arguments:
  "(\<not> has_value (prompt_type p) \<longrightarrow>
      create rem p s = (Inl (AttributeError (type_name (prompt_type p)) ''value''), s) \<and>
      create_async rem p s = (Inl (AttributeError (type_name (prompt_type p)) ''value''), s)) \<and>
   (has_value (prompt_type p) \<and> \<not> has_value (langchain_mode p) \<longrightarrow>
      create rem p s = (Inl (AttributeError (type_name (langchain_mode p)) ''value''), s) \<and>
      create_async rem p s =
        (Inl (AttributeError (type_name (langchain_mode p)) ''value''), s)) \<and>
   (is_PromptType (prompt_type p) \<and> is_LangChainMode (langchain_mode p) \<longrightarrow>
      (let s' = snd (create rem p s); req = last (submitted s')
       in create rem p s = (rem req, s\<lparr>submitted := submitted s @ [req]\<rparr>) \<and>
          create_async rem p s = (rem req, s\<lparr>submitted := submitted s @ [req]\<rparr>))) \<and>
   (has_value (prompt_type p) \<and> has_value (langchain_mode p) \<longrightarrow>
      (let s' = snd (create rem p s); req = last (submitted s')
       in create rem p s = (rem req, s\<lparr>submitted := submitted s @ [req]\<rparr>) \<and>
          create_async rem p s = (rem req, s\<lparr>submitted := submitted s @ [req]\<rparr>))) \<and>
   (attr_value (prompt_type p) = Inr a \<and> attr_value (langchain_mode p) = Inr b \<longrightarrow>
      (let args =
         [PStr '''', PStr '''', system_pre_context p, PBool False, a, PStr '''',
          temperature p, top_p p, top_k p, beams p, max_output_length p,
          min_output_length p, early_stopping p, max_time p, repetition_penalty p,
          number_returns p, enable_sampler p, PBool False, prompt p,
          input_context_for_instruction p, b, PInt 4, PBool True, PInt 512,
          PList [PStr ''All'']]
       in create rem p s =
            (rem (''/submit_nochat'', args),
             s\<lparr>submitted := submitted s @ [(''/submit_nochat'', args)]\<rparr>) \<and>
          create_async rem p s =
            (rem (''/submit_nochat'', args),
             s\<lparr>submitted := submitted s @ [(''/submit_nochat'', args)]\<rparr>))) \<and>
   has_value (PPromptType t) \<and> has_value (PLangChainMode m) \<and>
   attr_value (PLangChainMode m) = Inr (PStr (LangChainMode_value m)) \<and>
   attr_value (PPromptType t) = Inr (PStr (PromptType_value t)) \<and>
   (let args =
      [PStr '''', PStr '''', system_pre_context p, PBool False,
       PStr (LangChainMode_value m), PStr '''',
       temperature p, top_p p, top_k p, beams p, max_output_length p,
       min_output_length p, early_stopping p, max_time p, repetition_penalty p,
       number_returns p, enable_sampler p, PBool False, prompt p,
       input_context_for_instruction p, PStr (PromptType_value t), PInt 4, PBool True,
       PInt 512, PList [PStr ''All'']]
    in create rem (p\<lparr>prompt_type := PLangChainMode m, langchain_mode := PPromptType t\<rparr>) s =
         (rem (''/submit_nochat'', args),
          s\<lparr>submitted := submitted s @ [(''/submit_nochat'', args)]\<rparr>) \<and>
       create_async rem
           (p\<lparr>prompt_type := PLangChainMode m, langchain_mode := PPromptType t\<rparr>) s =
         (rem (''/submit_nochat'', args),
          s\<lparr>submitted := submitted s @ [(''/submit_nochat'', args)]\<rparr>))"
proof -
  have c1: "\<not> has_value (prompt_type p) \<longrightarrow>
      create rem p s = (Inl (AttributeError (type_name (prompt_type p)) ''value''), s) \<and>
      create_async rem p s = (Inl (AttributeError (type_name (prompt_type p)) ''value''), s)"
    by (simp add: create_def create_async_def Let_def attr_value_no)
  have c2: "has_value (prompt_type p) \<and> \<not> has_value (langchain_mode p) \<longrightarrow>
      create rem p s = (Inl (AttributeError (type_name (langchain_mode p)) ''value''), s) \<and>
      create_async rem p s =
        (Inl (AttributeError (type_name (langchain_mode p)) ''value''), s)"
  proof
    assume h: "has_value (prompt_type p) \<and> \<not> has_value (langchain_mode p)"
    then obtain x where x: "attr_value (prompt_type p) = Inr (PStr x)"
      using attr_value_yes by blast
    from h have n: "attr_value (langchain_mode p) =
        Inl (AttributeError (type_name (langchain_mode p)) ''value'')"
      by (simp add: attr_value_no)
    show "create rem p s = (Inl (AttributeError (type_name (langchain_mode p)) ''value''), s) \<and>
      create_async rem p s =
        (Inl (AttributeError (type_name (langchain_mode p)) ''value''), s)"
      by (simp add: create_def create_async_def Let_def x n)
  qed
  have c4: "has_value (prompt_type p) \<and> has_value (langchain_mode p) \<longrightarrow>
      (let s' = snd (create rem p s); req = last (submitted s')
       in create rem p s = (rem req, s\<lparr>submitted := submitted s @ [req]\<rparr>) \<and>
          create_async rem p s = (rem req, s\<lparr>submitted := submitted s @ [req]\<rparr>))"
  proof
    assume h: "has_value (prompt_type p) \<and> has_value (langchain_mode p)"
    then obtain x where x: "attr_value (prompt_type p) = Inr (PStr x)"
      using attr_value_yes by blast
    from h obtain y where y: "attr_value (langchain_mode p) = Inr (PStr y)"
      using attr_value_yes by blast
    show "let s' = snd (create rem p s); req = last (submitted s')
       in create rem p s = (rem req, s\<lparr>submitted := submitted s @ [req]\<rparr>) \<and>
          create_async rem p s = (rem req, s\<lparr>submitted := submitted s @ [req]\<rparr>)"
      by (simp add: call_defs x y)
  qed
  have sub: "is_PromptType v \<Longrightarrow> has_value v" "is_LangChainMode v \<Longrightarrow> has_value v" for v
    by (cases v; simp)+
  have c3: "is_PromptType (prompt_type p) \<and> is_LangChainMode (langchain_mode p) \<longrightarrow>
      (let s' = snd (create rem p s); req = last (submitted s')
       in create rem p s = (rem req, s\<lparr>submitted := submitted s @ [req]\<rparr>) \<and>
          create_async rem p s = (rem req, s\<lparr>submitted := submitted s @ [req]\<rparr>))"
    using c4 sub by blast
  have c5: "attr_value (prompt_type p) = Inr a \<and> attr_value (langchain_mode p) = Inr b \<longrightarrow>
      (let args =
         [PStr '''', PStr '''', system_pre_context p, PBool False, a, PStr '''',
          temperature p, top_p p, top_k p, beams p, max_output_length p,
          min_output_length p, early_stopping p, max_time p, repetition_penalty p,
          number_returns p, enable_sampler p, PBool False, prompt p,
          input_context_for_instruction p, b, PInt 4, PBool True, PInt 512,
          PList [PStr ''All'']]
       in create rem p s =
            (rem (''/submit_nochat'', args),
             s\<lparr>submitted := submitted s @ [(''/submit_nochat'', args)]\<rparr>) \<and>
          create_async rem p s =
            (rem (''/submit_nochat'', args),
             s\<lparr>submitted := submitted s @ [(''/submit_nochat'', args)]\<rparr>))"
    by (simp add: call_defs)
  have c6: "let args =
      [PStr '''', PStr '''', system_pre_context p, PBool False,
       PStr (LangChainMode_value m), PStr '''',
       temperature p, top_p p, top_k p, beams p, max_output_length p,
       min_output_length p, early_stopping p, max_time p, repetition_penalty p,
       number_returns p, enable_sampler p, PBool False, prompt p,
       input_context_for_instruction p, PStr (PromptType_value t), PInt 4, PBool True,
       PInt 512, PList [PStr ''All'']]
    in create rem (p\<lparr>prompt_type := PLangChainMode m, langchain_mode := PPromptType t\<rparr>) s =
         (rem (''/submit_nochat'', args),
          s\<lparr>submitted := submitted s @ [(''/submit_nochat'', args)]\<rparr>) \<and>
       create_async rem
           (p\<lparr>prompt_type := PLangChainMode m, langchain_mode := PPromptType t\<rparr>) s =
         (rem (''/submit_nochat'', args),
          s\<lparr>submitted := submitted s @ [(''/submit_nochat'', args)]\<rparr>)"
    by (simp add: call_defs)
  have c7: "has_value (PPromptType t)" "has_value (PLangChainMode m)"
    "attr_value (PLangChainMode m) = Inr (PStr (LangChainMode_value m))"
    "attr_value (PPromptType t) = Inr (PStr (PromptType_value t))"
    by simp_all
  show ?thesis
    using c1 c2 c3 c4 c5 c6 c7 by blast
qed

text \<open>
  The cases of C6 at concrete calls on a fresh connection: the bare string "instruct" as
  prompt type; None as langchain mode; the call with the defaults; and the call with the
  two enumerations exchanged, \<^verbatim>\<open>prompt_type=LangChainMode.WIKI\<close> and
  \<^verbatim>\<open>langchain_mode=PromptType.PLAIN\<close>, which submits the tags "wiki" and "plain".
\<close>

theorem C6_enumeration_arguments_witness:
  "\<not> has_value (PStr ''instruct'') \<and>
   create ok_remote ((create_defaults (PStr ''Hello''))\<lparr>prompt_type := PStr ''instruct''\<rparr>)
     (fresh sample_client) =
   (Inl (AttributeError ''str'' ''value''), fresh sample_client) \<and>
   has_value (PPromptType INSTRUCT) \<and> \<not> has_value PNone \<and>
   create ok_remote ((create_defaults (PStr ''Hello''))
       \<lparr>prompt_type := PPromptType INSTRUCT, langchain_mode := PNone\<rparr>)
     (fresh sample_client) =
   (Inl (AttributeError ''NoneType'' ''value''), fresh sample_client) \<and>
   is_PromptType (PPromptType PLAIN) \<and> is_LangChainMode (PLangChainMode DISABLED) \<and>
   fst (create ok_remote (create_defaults (PStr ''Hello'')) (fresh sample_client)) = Inr ''ok'' \<and>
   length (submitted (snd (create ok_remote (create_defaults (PStr ''Hello''))
      (fresh sample_client)))) = 1 \<and>
   has_value (PLangChainMode WIKI) \<and> has_value (PPromptType PLAIN) \<and>
   attr_value (PLangChainMode WIKI) = Inr (PStr ''wiki'') \<and>
   attr_value (PPromptType PLAIN) = Inr (PStr ''plain'') \<and>
   \<not> is_PromptType (PLangChainMode WIKI) \<and> \<not> is_LangChainMode (PPromptType PLAIN) \<and>
   create ok_remote ((create_defaults (PStr ''Hello''))
       \<lparr>prompt_type := PLangChainMode WIKI, langchain_mode := PPromptType PLAIN\<rparr>)
     (fresh sample_client) =
   (Inr ''ok'',
    \<lparr>conn = sample_client,
     submitted =
       [(''/submit_nochat'',
         [PStr '''', PStr '''', PStr '''', PBool False, PStr ''wiki'', PStr '''',
          PFloat 1.0, PFloat 1.0, PInt 40, PFloat 1.0, PInt 128, PInt 0, PBool False,
          PInt 180, PFloat 1.07, PInt 1, PBool False, PBool False, PStr ''Hello'',
          PStr '''', PStr ''plain'', PInt 4, PBool True, PInt 512,
          PList [PStr ''All'']])]\<rparr>)"
  using
    C6_enumeration_arguments
      [where p = "(create_defaults (PStr ''Hello''))\<lparr>prompt_type := PStr ''instruct''\<rparr>"
        and rem = ok_remote and s = "fresh sample_client"]
    C6_enumeration_arguments
      [where p = "(create_defaults (PStr ''Hello''))
             \<lparr>prompt_type := PPromptType INSTRUCT, langchain_mode := PNone\<rparr>"
        and rem = ok_remote and s = "fresh sample_client"]
    C6_enumeration_arguments
      [where p = "create_defaults (PStr ''Hello'')" and rem = ok_remote
        and s = "fresh sample_client"]
    C6_enumeration_arguments
      [where p = "(create_defaults (PStr ''Hello''))
             \<lparr>prompt_type := PLangChainMode WIKI, langchain_mode := PPromptType PLAIN\<rparr>"
        and rem = ok_remote and s = "fresh sample_client"
        and a = "PStr ''wiki''" and b = "PStr ''plain''"]
  by (simp add: call_defs create_defaults_def ok_remote_def fresh_def)

subsection \<open>Effects of a call\<close>




subsection \<open>Defaults and the empty prompt\<close>

text \<open>
  C8. A call of \<^verbatim>\<open>create\<close> or \<^verbatim>\<open>create_async\<close> that supplies only the prompt \<open>x\<close>
  forwards the defaults: prompt-type tag "plain", input context "", sampler off,
  temperature 1.0, top_p 1.0, top_k 40, beams 1.0, early stopping off, minimum output
  length 0, maximum output length 128, maximum time 180, repetition penalty 1.07, number
  of returns 1, system pre-context "" and langchain-mode tag "Disabled", each at its
  position of the argument list.
\<close>

theorem C8_defaults_forwarded:
  "(let args =
      [PStr '''', PStr '''', PStr '''', PBool False, PStr ''plain'', PStr '''',
       PFloat 1.0, PFloat 1.0, PInt 40, PFloat 1.0, PInt 128, PInt 0, PBool False,
       PInt 180, PFloat 1.07, PInt 1, PBool False, PBool False, x, PStr '''',
       PStr ''Disabled'', PInt 4, PBool True, PInt 512, PList [PStr ''All'']]
    in create rem (create_defaults x) s =
         (rem (''/submit_nochat'', args),
          s\<lparr>submitted := submitted s @ [(''/submit_nochat'', args)]\<rparr>) \<and>
       create_async rem (create_async_defaults x) s =
         (rem (''/submit_nochat'', args),
          s\<lparr>submitted := submitted s @ [(''/submit_nochat'', args)]\<rparr>))"
  by (simp add: call_defs create_defaults_def create_async_defaults_def)


subsection \<open>The enumerations\<close>

text \<open>
  C10. \<^verbatim>\<open>PromptType\<close> has exactly 15 members, with 15 different tags, none of which
  is "custom"; \<^verbatim>\<open>LangChainMode\<close> has exactly 10 members, with 10 different tags; and
  the promptDict value (position 5) of whatever \<^verbatim>\<open>create\<close> or \<^verbatim>\<open>create_async\<close>
  forwards is the empty string.
\<close>

theorem C10_enumerations:
  "length PromptType_members = 15 \<and>
   set PromptType_members = UNIV \<and>
   distinct (map PromptType_value PromptType_members) \<and>
   card (UNIV :: PromptType set) = 15 \<and>
   ''custom'' \<notin> set (map PromptType_value PromptType_members) \<and>
   PromptType_value t \<noteq> ''custom'' \<and>
   length LangChainMode_members = 10 \<and>
   set LangChainMode_members = UNIV \<and>
   distinct (map LangChainMode_value LangChainMode_members) \<and>
   card (UNIV :: LangChainMode set) = 10 \<and>
   (let s' = snd (create rem (p\<lparr>prompt_type := PPromptType pt,
                langchain_mode := PLangChainMode lm\<rparr>) s)
    in length (submitted s') = length (submitted s) + 1 \<and>
       snd (last (submitted s')) ! 5 = PStr '''') \<and>
   (let s' = snd (create_async rem (p\<lparr>prompt_type := PPromptType pt,
                langchain_mode := PLangChainMode lm\<rparr>) s)
    in length (submitted s') = length (submitted s) + 1 \<and>
       snd (last (submitted s')) ! 5 = PStr '''') \<and>
   (let s' = snd (create rem q s)
    in s' = s \<or> snd (last (submitted s')) ! 5 = PStr '''') \<and>
   (let s' = snd (create_async rem q s)
    in s' = s \<or> snd (last (submitted s')) ! 5 = PStr '''')"
proof -
  have dp: "distinct PromptType_members"
    using PromptType_distinct by (rule distinct_map [THEN iffD1, THEN conjunct1])
  have dl: "distinct LangChainMode_members"
    using LangChainMode_distinct by (rule distinct_map [THEN iffD1, THEN conjunct1])
  have lp: "length PromptType_members = 15" "length LangChainMode_members = 10"
    by (simp_all add: PromptType_members_def LangChainMode_members_def)
  have cp: "card (UNIV :: PromptType set) = 15"
    using distinct_card [OF dp] by (simp add: PromptType_UNIV lp)
  have cl: "card (UNIV :: LangChainMode set) = 10"
    using distinct_card [OF dl] by (simp add: LangChainMode_UNIV lp)
  have nc: "PromptType_value t \<noteq> ''custom''"
    by (cases t) simp_all
  have nc': "''custom'' \<notin> set (map PromptType_value PromptType_members)"
    by (simp add: PromptType_members_def)
  have c: "let s' = snd (create rem (p\<lparr>prompt_type := PPromptType pt,
                langchain_mode := PLangChainMode lm\<rparr>) s)
    in length (submitted s') = length (submitted s) + 1 \<and>
       snd (last (submitted s')) ! 5 = PStr ''''"
    by (simp add: call_defs)
  have a: "let s' = snd (create_async rem (p\<lparr>prompt_type := PPromptType pt,
                langchain_mode := PLangChainMode lm\<rparr>) s)
    in length (submitted s') = length (submitted s) + 1 \<and>
       snd (last (submitted s')) ! 5 = PStr ''''"
    by (simp add: call_defs)
  have c': "let s' = snd (create rem q s)
    in s' = s \<or> snd (last (submitted s')) ! 5 = PStr ''''"
    by (simp add: call_defs split: sum.splits)
  have a': "let s' = snd (create_async rem q s)
    in s' = s \<or> snd (last (submitted s')) ! 5 = PStr ''''"
    by (simp add: call_defs split: sum.splits)
  show ?thesis
    using lp cp cl nc nc' c a c' a' PromptType_UNIV LangChainMode_UNIV PromptType_distinct
      LangChainMode_distinct by blast
qed

end
